theory Spec2Isabelle
  imports Main "HOL-Library.AList" "HOL-Library.Sublist"
begin

section \<open>Values, time, configuration and the libraries the code calls\<close>

text \<open>
  Python values that the code handles dynamically (JWT claims, the \<open>update_data\<close>
  dictionary, JSON columns). A dictionary is an association list in insertion order.
\<close>

datatype pyvalue =
    PNone
  | PBool bool
  | PInt int
  | PStr string
  | PDatetime int
  | PList "pyvalue list"
  | PDict "(string \<times> pyvalue) list"

type_synonym pydict = "(string \<times> pyvalue) list"

text \<open>Python truthiness, as used by \<open>if x:\<close> and \<open>not x\<close>.\<close>

fun truthy :: "pyvalue \<Rightarrow> bool" where
  "truthy PNone = False"
| "truthy (PBool b) = b"
| "truthy (PInt n) = (n \<noteq> 0)"
| "truthy (PStr s) = (s \<noteq> [])"
| "truthy (PDatetime t) = True"
| "truthy (PList xs) = (xs \<noteq> [])"
| "truthy (PDict kvs) = (kvs \<noteq> [])"

text \<open>
  A \<open>datetime\<close> is the number of microseconds since the epoch (the resolution of
  Python's \<open>datetime\<close>); a \<open>timedelta\<close> is a number of microseconds. Every operation
  takes the value \<open>now\<close> that \<open>datetime.utcnow()\<close> returns while it runs.
\<close>

type_synonym datetime = int

definition timedelta_minutes :: "int \<Rightarrow> int" where
  "timedelta_minutes m = m * 60000000"

definition timedelta_days :: "int \<Rightarrow> int" where
  "timedelta_days d = d * 86400000000"

text \<open>\<open>core/config.py\<close>: the fields of \<open>Settings\<close> that the services read.\<close>

record settings =
  SECRET_KEY :: string
  ALGORITHM :: string
  ACCESS_TOKEN_EXPIRE_MINUTES :: int
  REFRESH_TOKEN_EXPIRE_DAYS :: int
  MAX_FAILED_LOGIN_ATTEMPTS :: int
  ACCOUNT_LOCKOUT_DURATION_MINUTES :: int

text \<open>
  What the code takes from outside the repository, as parameters: passlib's
  \<open>CryptContext\<close> (\<open>pwd_hash\<close>, \<open>pwd_verify\<close>), python-jose (\<open>jwt_encode claims key
  algorithm\<close>; \<open>jwt_decode token key algorithms now\<close>, \<open>None\<close> standing for a raised
  \<open>JWTError\<close>), \<open>str\<close> and the constructor of \<open>uuid.UUID\<close> (\<open>None\<close> for
  \<open>ValueError\<close>), and whether the store accepts the row that \<open>log_audit_event\<close>
  inserts (\<open>audit_insert_ok\<close>; when it does not, \<open>db.commit()\<close> raises there).
\<close>

record environment =
  pwd_hash :: "string \<Rightarrow> string"
  pwd_verify :: "string \<Rightarrow> string \<Rightarrow> bool"
  jwt_encode :: "pydict \<Rightarrow> string \<Rightarrow> string \<Rightarrow> string"
  jwt_decode :: "string \<Rightarrow> string \<Rightarrow> string list \<Rightarrow> datetime \<Rightarrow> pydict option"
  uuid_str :: "nat \<Rightarrow> string"
  uuid_parse :: "string \<Rightarrow> nat option"
  audit_insert_ok :: bool

section \<open>Data model (\<open>models/\<close>)\<close>

text \<open>
  \<open>models/user.py\<close>. The primary key \<open>id\<close> is \<open>uid\<close> here (a UUID as a number).
  \<open>first_name\<close>, \<open>last_name\<close> and \<open>preferences\<close> hold whatever value was assigned
  to them (\<open>PNone\<close> for NULL). The bookkeeping columns \<open>created_at\<close> and \<open>updated_at\<close>,
  which no function of the services reads or assigns, are not part of the record.
\<close>

record user =
  uid :: nat
  email :: string
  username :: string
  password_hash :: string
  first_name :: pyvalue
  last_name :: pyvalue
  role :: string
  is_active :: bool
  mfa_enabled :: bool
  failed_login_attempts :: int
  locked_until :: "datetime option"
  preferences :: pyvalue
  last_login_at :: "datetime option"

text \<open>
  \<open>models/session.py\<close>. The generated primary key is left out: a row is identified by
  its position in the table.
\<close>

record session =
  user_id :: nat
  refresh_token :: string
  ip_address :: "string option"
  user_agent :: "string option"
  device_type :: string
  expires_at :: datetime
  is_revoked :: bool
  created_at :: datetime
  last_used_at :: datetime

text \<open>
  \<open>models/audit_log.py\<close>. The fields are prefixed with \<open>audit_\<close> where the session
  record has a field of the same name. The JSON payload of an entry is left out.
\<close>

record audit_log_entry =
  audit_user_id :: "nat option"
  action :: string
  outcome :: string
  audit_ip_address :: "string option"
  audit_user_agent :: "string option"

text \<open>The committed contents of the three tables, rows in table order.\<close>

record db =
  users :: "user list"
  sessions :: "session list"
  audit_log :: "audit_log_entry list"

text \<open>
  What an operation raises: FastAPI's \<open>HTTPException\<close>, or an exception that no
  handler of the repository catches (the caller sees a 500).
\<close>

datatype failure =
    HTTPException (status_code: nat) (detail: string) (headers: "(string \<times> string) list")
  | Uncaught string

subsection \<open>Computed properties\<close>

definition is_locked :: "user \<Rightarrow> datetime \<Rightarrow> bool" where
  "is_locked u now = (case locked_until u of None \<Rightarrow> False | Some t \<Rightarrow> now < t)"

definition is_expired :: "session \<Rightarrow> datetime \<Rightarrow> bool" where
  "is_expired s now = (now > expires_at s)"

definition is_valid :: "session \<Rightarrow> datetime \<Rightarrow> bool" where
  "is_valid s now = (\<not> is_revoked s \<and> \<not> is_expired s now)"

section \<open>Token codec (\<open>core/security.py\<close>)\<close>

definition hash_password :: "environment \<Rightarrow> string \<Rightarrow> string" where
  "hash_password env password = pwd_hash env password"

definition verify_password :: "environment \<Rightarrow> string \<Rightarrow> string \<Rightarrow> bool" where
  "verify_password env plain_password hashed_password =
     pwd_verify env plain_password hashed_password"

text \<open>
  The claims that \<open>create_access_token\<close> and \<open>create_refresh_token\<close> sign:
  \<open>to_encode = data.copy()\<close>, then \<open>to_encode.update({"exp": expire, "type": ...})\<close>.
  \<open>if expires_delta:\<close> is false for \<open>None\<close> and for a zero \<open>timedelta\<close>.
\<close>

definition access_token_claims ::
  "settings \<Rightarrow> pydict \<Rightarrow> int option \<Rightarrow> datetime \<Rightarrow> pydict" where
  "access_token_claims cfg data expires_delta now =
     (let expire =
        (case expires_delta of
           Some d \<Rightarrow> if d \<noteq> 0 then now + d
                     else now + timedelta_minutes (ACCESS_TOKEN_EXPIRE_MINUTES cfg)
         | None \<Rightarrow> now + timedelta_minutes (ACCESS_TOKEN_EXPIRE_MINUTES cfg))
      in AList.update ''type'' (PStr ''access'') (AList.update ''exp'' (PDatetime expire) data))"

definition create_access_token ::
  "environment \<Rightarrow> settings \<Rightarrow> pydict \<Rightarrow> int option \<Rightarrow> datetime \<Rightarrow> string" where
  "create_access_token env cfg data expires_delta now =
     jwt_encode env (access_token_claims cfg data expires_delta now)
       (SECRET_KEY cfg) (ALGORITHM cfg)"

definition refresh_token_claims ::
  "settings \<Rightarrow> pydict \<Rightarrow> int option \<Rightarrow> datetime \<Rightarrow> pydict" where
  "refresh_token_claims cfg data expires_delta now =
     (let expire =
        (case expires_delta of
           Some d \<Rightarrow> if d \<noteq> 0 then now + d
                     else now + timedelta_days (REFRESH_TOKEN_EXPIRE_DAYS cfg)
         | None \<Rightarrow> now + timedelta_days (REFRESH_TOKEN_EXPIRE_DAYS cfg))
      in AList.update ''type'' (PStr ''refresh'') (AList.update ''exp'' (PDatetime expire) data))"

definition create_refresh_token ::
  "environment \<Rightarrow> settings \<Rightarrow> pydict \<Rightarrow> int option \<Rightarrow> datetime \<Rightarrow> string" where
  "create_refresh_token env cfg data expires_delta now =
     jwt_encode env (refresh_token_claims cfg data expires_delta now)
       (SECRET_KEY cfg) (ALGORITHM cfg)"

definition decode_token :: "environment \<Rightarrow> settings \<Rightarrow> string \<Rightarrow> datetime \<Rightarrow> pydict option" where
  "decode_token env cfg token now =
     jwt_decode env token (SECRET_KEY cfg) [ALGORITHM cfg] now"

section \<open>Audit recorder (\<open>services/audit_service.py\<close>)\<close>

text \<open>
  \<open>log_audit_event\<close> adds one entry and commits on its own: \<open>db.add(audit_entry);
  db.commit()\<close>. When the store refuses the row the commit raises and nothing is added.
\<close>

definition log_audit_event ::
  "environment \<Rightarrow> db \<Rightarrow> string \<Rightarrow> string \<Rightarrow> nat option \<Rightarrow> string option \<Rightarrow> string option
     \<Rightarrow> failure + (db \<times> audit_log_entry)" where
  "log_audit_event env d act outc user_id' ip ua =
     (let audit_entry = \<lparr>audit_user_id = user_id', action = act, outcome = outc,
                           audit_ip_address = ip, audit_user_agent = ua\<rparr>
      in if audit_insert_ok env
         then Inr (d\<lparr>audit_log := audit_log d @ [audit_entry]\<rparr>, audit_entry)
         else Inl (Uncaught ''SQLAlchemyError''))"

text \<open>
  Every service function ends a path with a call of \<open>log_audit_event\<close> followed by a
  \<open>raise\<close> or a \<open>return\<close>: \<open>audited env d ... r\<close> is that tail, on the committed
  store \<open>d\<close>. An operation returns the committed store it leaves and what it returns
  or raises.
\<close>

definition audited ::
  "environment \<Rightarrow> db \<Rightarrow> string \<Rightarrow> string \<Rightarrow> nat option \<Rightarrow> string option \<Rightarrow> string option
     \<Rightarrow> failure + 'a \<Rightarrow> db \<times> (failure + 'a)" where
  "audited env d act outc user_id' ip ua r =
     (case log_audit_event env d act outc user_id' ip ua of
        Inl e \<Rightarrow> (d, Inl e)
      | Inr (d', _) \<Rightarrow> (d', r))"

section \<open>Session store and account rows\<close>

text \<open>
  The two queries on \<open>users\<close>: \<open>filter((User.email == x) | (User.username == x)).first()\<close>
  and \<open>filter(User.id == i).first()\<close> (also what \<open>session.user\<close> loads).
\<close>

definition user_by_login :: "db \<Rightarrow> string \<Rightarrow> user option" where
  "user_by_login d x = find (\<lambda>u. email u = x \<or> username u = x) (users d)"

definition user_by_id :: "db \<Rightarrow> nat \<Rightarrow> user option" where
  "user_by_id d i = find (\<lambda>u. uid u = i) (users d)"

text \<open>\<open>filter(SessionModel.refresh_token == t).first()\<close>.\<close>

definition session_by_token :: "db \<Rightarrow> string \<Rightarrow> session option" where
  "session_by_token d t = find (\<lambda>s. refresh_token s = t) (sessions d)"

text \<open>
  Committing a changed \<open>User\<close> object writes the row with its primary key.
\<close>

definition save_user :: "db \<Rightarrow> user \<Rightarrow> db" where
  "save_user d u = d\<lparr>users := map (\<lambda>x. if uid x = uid u then u else x) (users d)\<rparr>"

text \<open>
  \<open>query(...).filter(...).first()\<close> followed by \<open>session.is_revoked = True\<close> and a
  commit: the first row that matches is the one revoked.
\<close>

fun revoke_first :: "(session \<Rightarrow> bool) \<Rightarrow> session list \<Rightarrow> session list" where
  "revoke_first P [] = []"
| "revoke_first P (s # ss) =
     (if P s then s\<lparr>is_revoked := True\<rparr> # ss else s # revoke_first P ss)"

text \<open>\<open>refresh_token\<close> is a unique column: inserting a second row with a stored token
  makes the commit raise \<open>IntegrityError\<close>, and the transaction is rolled back.\<close>

definition token_stored :: "db \<Rightarrow> string \<Rightarrow> bool" where
  "token_stored d tok = (tok \<in> set (map refresh_token (sessions d)))"

text \<open>\<open>a or b\<close> on optional strings: \<open>a\<close> unless it is \<open>None\<close> or empty.\<close>

definition py_or :: "string option \<Rightarrow> string option \<Rightarrow> string option" where
  "py_or a b = (case a of None \<Rightarrow> b | Some s \<Rightarrow> if s \<noteq> [] then Some s else b)"

text \<open>\<open>str.lower()\<close> on ASCII letters, and \<open>sub in s\<close>.\<close>

definition lower_char :: "char \<Rightarrow> char" where
  "lower_char c =
     (let n = (of_char c :: nat) in if 65 \<le> n \<and> n \<le> 90 then char_of (n + 32) else c)"

fun contains :: "string \<Rightarrow> string \<Rightarrow> bool" where
  "contains [] sub = (sub = [])"
| "contains (c # cs) sub = (prefix sub (c # cs) \<or> contains cs sub)"

definition detect_device_type :: "string option \<Rightarrow> string" where
  "detect_device_type ua =
     (case ua of
        None \<Rightarrow> ''unknown''
      | Some a \<Rightarrow>
          if a = [] then ''unknown''
          else (let user_agent_lower = map lower_char a in
            if list_ex (contains user_agent_lower) [''mobile'', ''android'', ''iphone'']
            then ''mobile''
            else if contains user_agent_lower ''tablet'' \<or> contains user_agent_lower ''ipad''
            then ''tablet''
            else ''desktop''))"

section \<open>Auth engine (\<open>services/auth_service.py\<close>)\<close>

definition authenticate_user ::
  "environment \<Rightarrow> settings \<Rightarrow> db \<Rightarrow> string \<Rightarrow> string \<Rightarrow> string option \<Rightarrow> string option
     \<Rightarrow> datetime \<Rightarrow> db \<times> (failure + (user \<times> string \<times> string))" where
  "authenticate_user env cfg d email_or_username password ip ua now =
     (case user_by_login d email_or_username of
        None \<Rightarrow>
          audited env d ''login_failure'' ''failure'' None ip ua
            (Inl (HTTPException 401 ''Invalid credentials'' []))
      | Some usr \<Rightarrow>
          if \<not> is_active usr then
            audited env d ''login_failure'' ''failure'' (Some (uid usr)) ip ua
              (Inl (HTTPException 403 ''Account has been deactivated'' []))
          else if is_locked usr now then
            audited env d ''login_failure'' ''failure'' (Some (uid usr)) ip ua
              (Inl (HTTPException 403
                 ''Account is temporarily locked due to failed login attempts'' []))
          else if \<not> verify_password env password (password_hash usr) then
            (let usr1 = usr\<lparr>failed_login_attempts := failed_login_attempts usr + 1\<rparr> in
             if failed_login_attempts usr1 \<ge> MAX_FAILED_LOGIN_ATTEMPTS cfg then
               (let usr2 = usr1\<lparr>locked_until :=
                       Some (now + timedelta_minutes (ACCOUNT_LOCKOUT_DURATION_MINUTES cfg))\<rparr>
                in audited env (save_user d usr2) ''account_locked'' ''success''
                     (Some (uid usr)) ip ua
                     (Inl (HTTPException 403
                        ''Account locked due to too many failed login attempts'' [])))
             else
               audited env (save_user d usr1) ''login_failure'' ''failure''
                 (Some (uid usr)) ip ua
                 (Inl (HTTPException 401 ''Invalid credentials'' [])))
          else
            (let usr1 = usr\<lparr>failed_login_attempts := 0, locked_until := None,
                            last_login_at := Some now\<rparr>;
                 d1 = save_user d usr1;
                 access_token = create_access_token env cfg
                   [(''sub'', PStr (uuid_str env (uid usr))), (''role'', PStr (role usr))]
                   None now;
                 refresh_token' = create_refresh_token env cfg
                   [(''sub'', PStr (uuid_str env (uid usr)))] None now;
                 new_session = \<lparr>user_id = uid usr, refresh_token = refresh_token',
                   ip_address = ip, user_agent = ua,
                   device_type = detect_device_type ua,
                   expires_at = now + timedelta_days (REFRESH_TOKEN_EXPIRE_DAYS cfg),
                   is_revoked = False, created_at = now, last_used_at = now\<rparr>
             in if token_stored d1 refresh_token' then (d1, Inl (Uncaught ''IntegrityError''))
                else audited env (d1\<lparr>sessions := sessions d1 @ [new_session]\<rparr>)
                       ''login_success'' ''success'' (Some (uid usr)) ip ua
                       (Inr (usr1, access_token, refresh_token'))))"

definition refresh_access_token ::
  "environment \<Rightarrow> settings \<Rightarrow> db \<Rightarrow> string \<Rightarrow> string option \<Rightarrow> string option
     \<Rightarrow> datetime \<Rightarrow> db \<times> (failure + (string \<times> string))" where
  "refresh_access_token env cfg d tok ip ua now =
     (case session_by_token d tok of
        None \<Rightarrow> (d, Inl (HTTPException 401 ''Invalid refresh token'' []))
      | Some sess \<Rightarrow>
          if \<not> is_valid sess now then
            (d, Inl (HTTPException 401 ''Refresh token has expired or been revoked'' []))
          else
            (case user_by_id d (user_id sess) of
               None \<Rightarrow> (d, Inl (HTTPException 401 ''User not found or inactive'' []))
             | Some usr \<Rightarrow>
                 if \<not> is_active usr then
                   (d, Inl (HTTPException 401 ''User not found or inactive'' []))
                 else
                   (let new_access_token = create_access_token env cfg
                          [(''sub'', PStr (uuid_str env (uid usr))), (''role'', PStr (role usr))]
                          None now;
                        new_refresh_token = create_refresh_token env cfg
                          [(''sub'', PStr (uuid_str env (uid usr)))] None now;
                        revoked = revoke_first (\<lambda>s. refresh_token s = tok) (sessions d);
                        new_session = \<lparr>user_id = uid usr, refresh_token = new_refresh_token,
                          ip_address = py_or ip (ip_address sess),
                          user_agent = py_or ua (user_agent sess),
                          device_type = device_type sess,
                          expires_at = now + timedelta_days (REFRESH_TOKEN_EXPIRE_DAYS cfg),
                          is_revoked = False, created_at = now, last_used_at = now\<rparr>
                    in if token_stored d new_refresh_token
                       then (d, Inl (Uncaught ''IntegrityError''))
                       else audited env (d\<lparr>sessions := revoked @ [new_session]\<rparr>)
                              ''token_refresh'' ''success'' (Some (uid usr)) ip ua
                              (Inr (new_access_token, new_refresh_token)))))"

definition logout_user ::
  "environment \<Rightarrow> db \<Rightarrow> user \<Rightarrow> string option \<Rightarrow> string option \<Rightarrow> string option
     \<Rightarrow> db \<times> (failure + unit)" where
  "logout_user env d usr tok ip ua =
     (let revoke_all = map (\<lambda>s. if user_id s = uid usr \<and> is_revoked s = False
                                  then s\<lparr>is_revoked := True\<rparr> else s);
          sessions' =
            (case tok of
               None \<Rightarrow> revoke_all (sessions d)
             | Some t \<Rightarrow>
                 if t \<noteq> [] then
                   revoke_first (\<lambda>s. user_id s = uid usr \<and> refresh_token s = t) (sessions d)
                 else revoke_all (sessions d))
      in audited env (d\<lparr>sessions := sessions'\<rparr>) ''logout'' ''success''
           (Some (uid usr)) ip ua (Inr ()))"

section \<open>User operations (\<open>services/user_service.py\<close>)\<close>

text \<open>
  \<open>setattr(user, field, value)\<close> assigns any attribute of the object. A typed column
  takes a value of its type (another value is not a value of that column, and the
  attribute is left as it is here); a name that is no column of \<open>users\<close> changes no row.
\<close>

definition setattr :: "user \<Rightarrow> string \<Rightarrow> pyvalue \<Rightarrow> user" where
  "setattr u field v =
     (if field = ''first_name'' then u\<lparr>first_name := v\<rparr>
      else if field = ''last_name'' then u\<lparr>last_name := v\<rparr>
      else if field = ''preferences'' then u\<lparr>preferences := v\<rparr>
      else if field = ''email'' then (case v of PStr x \<Rightarrow> u\<lparr>email := x\<rparr> | _ \<Rightarrow> u)
      else if field = ''username'' then (case v of PStr x \<Rightarrow> u\<lparr>username := x\<rparr> | _ \<Rightarrow> u)
      else if field = ''password_hash'' then
        (case v of PStr x \<Rightarrow> u\<lparr>password_hash := x\<rparr> | _ \<Rightarrow> u)
      else if field = ''role'' then (case v of PStr x \<Rightarrow> u\<lparr>role := x\<rparr> | _ \<Rightarrow> u)
      else if field = ''is_active'' then (case v of PBool b \<Rightarrow> u\<lparr>is_active := b\<rparr> | _ \<Rightarrow> u)
      else if field = ''mfa_enabled'' then
        (case v of PBool b \<Rightarrow> u\<lparr>mfa_enabled := b\<rparr> | _ \<Rightarrow> u)
      else if field = ''failed_login_attempts'' then
        (case v of PInt n \<Rightarrow> u\<lparr>failed_login_attempts := n\<rparr> | _ \<Rightarrow> u)
      else if field = ''locked_until'' then
        (case v of PDatetime t \<Rightarrow> u\<lparr>locked_until := Some t\<rparr>
                 | PNone \<Rightarrow> u\<lparr>locked_until := None\<rparr> | _ \<Rightarrow> u)
      else if field = ''last_login_at'' then
        (case v of PDatetime t \<Rightarrow> u\<lparr>last_login_at := Some t\<rparr>
                 | PNone \<Rightarrow> u\<lparr>last_login_at := None\<rparr> | _ \<Rightarrow> u)
      else if field = ''id'' then (case v of PInt n \<Rightarrow> u\<lparr>uid := nat n\<rparr> | _ \<Rightarrow> u)
      else u)"

definition allowed_fields :: "string set" where
  "allowed_fields = {''first_name'', ''last_name'', ''preferences''}"

text \<open>The body of the loop over \<open>update_data.items()\<close>.\<close>

definition update_field :: "string \<times> pyvalue \<Rightarrow> user \<Rightarrow> user" where
  "update_field kv u =
     (case kv of (field, v) \<Rightarrow>
        if field \<in> allowed_fields \<and> v \<noteq> PNone then setattr u field v else u)"

definition update_user_profile ::
  "environment \<Rightarrow> db \<Rightarrow> user \<Rightarrow> pydict \<Rightarrow> string option \<Rightarrow> string option
     \<Rightarrow> db \<times> (failure + user)" where
  "update_user_profile env d usr update_data ip ua =
     (let usr1 = fold update_field update_data usr in
      audited env (save_user d usr1) ''profile_updated'' ''success''
        (Some (uid usr1)) ip ua (Inr usr1))"

definition change_password ::
  "environment \<Rightarrow> db \<Rightarrow> user \<Rightarrow> string \<Rightarrow> string \<Rightarrow> string option \<Rightarrow> string option
     \<Rightarrow> db \<times> (failure + unit)" where
  "change_password env d usr current_password new_password ip ua =
     (if \<not> verify_password env current_password (password_hash usr) then
        audited env d ''password_change'' ''failure'' (Some (uid usr)) ip ua
          (Inl (HTTPException 400 ''Current password is incorrect'' []))
      else
        (let usr1 = usr\<lparr>password_hash := hash_password env new_password\<rparr> in
         audited env (save_user d usr1) ''password_change'' ''success''
           (Some (uid usr)) ip ua (Inr ())))"

section \<open>Access guard (\<open>core/dependencies.py\<close>)\<close>

text \<open>
  \<open>payload.get(k)\<close> is \<open>map_of payload k\<close>, with \<open>None\<close> for a missing key.
  \<open>UUID(user_id_str)\<close> on a value that is no string raises an exception other than
  \<open>ValueError\<close>, which the guard does not catch.
\<close>

definition bearer :: "(string \<times> string) list" where
  "bearer = [(''WWW-Authenticate'', ''Bearer'')]"

definition get_current_user ::
  "environment \<Rightarrow> settings \<Rightarrow> db \<Rightarrow> string \<Rightarrow> datetime \<Rightarrow> failure + user" where
  "get_current_user env cfg d token now =
     (case decode_token env cfg token now of
        None \<Rightarrow> Inl (HTTPException 401 ''Invalid or expired token'' bearer)
      | Some payload \<Rightarrow>
          if map_of payload ''type'' \<noteq> Some (PStr ''access'') then
            Inl (HTTPException 401 ''Invalid token type'' bearer)
          else
            (case map_of payload ''sub'' of
               None \<Rightarrow> Inl (HTTPException 401 ''Token missing subject claim'' bearer)
             | Some user_id_str \<Rightarrow>
                 if \<not> truthy user_id_str then
                   Inl (HTTPException 401 ''Token missing subject claim'' bearer)
                 else
                   (case user_id_str of
                      PStr x \<Rightarrow>
                        (case uuid_parse env x of
                           None \<Rightarrow> Inl (HTTPException 401 ''Invalid user ID in token'' [])
                         | Some user_id' \<Rightarrow>
                             (case user_by_id d user_id' of
                                None \<Rightarrow> Inl (HTTPException 401 ''User not found'' [])
                              | Some usr \<Rightarrow>
                                  if \<not> is_active usr then
                                    Inl (HTTPException 403 ''Account has been deactivated'' [])
                                  else if is_locked usr now then
                                    Inl (HTTPException 403
                                      ''Account is temporarily locked due to failed login attempts''
                                      [])
                                  else Inr usr))
                    | _ \<Rightarrow> Inl (Uncaught ''AttributeError''))))"

section \<open>Scenarios and sample data\<close>


text \<open>
  Sample data for the concrete instances below: the defaults of \<open>core/config.py\<close>, a
  stand-in for the libraries (a token is its kind, its subject and its expiry in whole
  days; the password digest is the password behind a tag), and the seeded account.
\<close>

definition sample_settings :: settings where
  "sample_settings =
     \<lparr>SECRET_KEY = ''0123456789abcdef0123456789abcdef'', ALGORITHM = ''HS256'',
      ACCESS_TOKEN_EXPIRE_MINUTES = 15, REFRESH_TOKEN_EXPIRE_DAYS = 7,
      MAX_FAILED_LOGIN_ATTEMPTS = 5, ACCOUNT_LOCKOUT_DURATION_MINUTES = 15\<rparr>"

definition sample_jwt_encode :: "pydict \<Rightarrow> string \<Rightarrow> string \<Rightarrow> string" where
  "sample_jwt_encode claims key alg =
     (case map_of claims ''type'' of Some (PStr t) \<Rightarrow> t | _ \<Rightarrow> []) @ ''.'' @
     (case map_of claims ''sub'' of Some (PStr x) \<Rightarrow> x | _ \<Rightarrow> []) @ ''.'' @
     (case map_of claims ''exp'' of
        Some (PDatetime e) \<Rightarrow> replicate (nat (e div 86400000000)) CHR ''d'' | _ \<Rightarrow> [])"

definition sample_jwt_decode ::
  "string \<Rightarrow> string \<Rightarrow> string list \<Rightarrow> datetime \<Rightarrow> pydict option" where
  "sample_jwt_decode token key algs now =
     (if token = ''refresh.a3.ddddddd''
      then Some [(''sub'', PStr ''a3''), (''exp'', PDatetime 604800001000),
                 (''type'', PStr ''refresh'')]
      else if token = ''access.a3.''
      then Some [(''sub'', PStr ''a3''), (''role'', PStr ''user''),
                 (''exp'', PDatetime 900001000), (''type'', PStr ''access'')]
      else None)"

definition sample_environment :: environment where
  "sample_environment =
     \<lparr>pwd_hash = (\<lambda>p. ''bcrypt:'' @ p),
      pwd_verify = (\<lambda>p h. h = ''bcrypt:'' @ p),
      jwt_encode = sample_jwt_encode,
      jwt_decode = sample_jwt_decode,
      uuid_str = (\<lambda>i. if i = 3 then ''a3'' else ''a0''),
      uuid_parse = (\<lambda>x. if x = ''a3'' then Some 3 else None),
      audit_insert_ok = True\<rparr>"

definition sample_user :: user where
  "sample_user =
     \<lparr>uid = 3, email = ''chris@portal.dev'', username = ''chris_p'',
      password_hash = ''bcrypt:Chris@123!'', first_name = PStr ''Chris'',
      last_name = PStr ''Pannapara'', role = ''user'', is_active = True,
      mfa_enabled = False, failed_login_attempts = 0, locked_until = None,
      preferences = PDict [(''theme'', PStr ''light'')], last_login_at = None\<rparr>"



definition sample_db :: db where
  "sample_db = \<lparr>users = [sample_user], sessions = [], audit_log = []\<rparr>"

section \<open>Facts about the store shared by the proofs\<close>

lemmas sample_defs = sample_db_def sample_user_def sample_environment_def sample_settings_def
  user_by_login_def verify_password_def is_locked_def timedelta_minutes_def timedelta_days_def

lemma audited_users: "users (fst (audited env d act outc i ip ua r)) = users d"
  by (simp add: audited_def log_audit_event_def Let_def)

lemma audited_sessions: "sessions (fst (audited env d act outc i ip ua r)) = sessions d"
  by (simp add: audited_def log_audit_event_def Let_def)

lemma audited_ok:
  "audit_insert_ok env \<Longrightarrow>
   audited env d act outc i ip ua r =
     (d\<lparr>audit_log := audit_log d @ [\<lparr>audit_user_id = i, action = act, outcome = outc,
          audit_ip_address = ip, audit_user_agent = ua\<rparr>]\<rparr>, r)"
  by (simp add: audited_def log_audit_event_def Let_def)

lemma audited_refused:
  "\<not> audit_insert_ok env \<Longrightarrow>
   audited env d act outc i ip ua r = (d, Inl (Uncaught ''SQLAlchemyError''))"
  by (simp add: audited_def log_audit_event_def Let_def)





subsection \<open>The paths of \<open>authenticate_user\<close>\<close>






section \<open>Session validity\<close>



section \<open>Account guard: lockout\<close>












section \<open>Refresh: the failures\<close>




section \<open>Access guard: the kind of a token\<close>

lemma map_of_update_type:
  "map_of (AList.update ''type'' v al) ''type'' = Some v"
  by (simp add: update_conv')

text \<open>
  C8. \<open>get_current_user\<close> fails with 401 Unauthorized for every bearer token whose
  decoded claims have a \<open>type\<close> other than \<open>access\<close> (a missing \<open>type\<close> included), and in
  particular for a token that decodes to the claims \<open>create_refresh_token\<close> signs. The
  result is the same for every store \<open>d\<close>: no account is loaded before the rejection.
\<close>

theorem access_guard_rejects_other_kinds:
  "(decode_token env cfg token now = Some payload
      \<and> map_of payload ''type'' \<noteq> Some (PStr ''access'') \<longrightarrow>
      get_current_user env cfg d token now
        = Inl (HTTPException 401 ''Invalid token type'' [(''WWW-Authenticate'', ''Bearer'')]))
   \<and> (decode_token env cfg token now = Some (refresh_token_claims cfg data expires_delta t0) \<longrightarrow>
      get_current_user env cfg d token now
        = Inl (HTTPException 401 ''Invalid token type'' [(''WWW-Authenticate'', ''Bearer'')]))"
  by (simp add: get_current_user_def bearer_def refresh_token_claims_def Let_def
      map_of_update_type)

text \<open>
  An instance: a valid refresh token of the seeded, active account is rejected; an access
  token of the same account is let through.
\<close>

theorem access_guard_rejects_refresh_token_witness:
  "decode_token sample_environment sample_settings ''refresh.a3.ddddddd'' 2000
     = Some (refresh_token_claims sample_settings [(''sub'', PStr ''a3'')] None 1000)
   \<and> user_by_id sample_db 3 = Some sample_user
   \<and> get_current_user sample_environment sample_settings sample_db ''refresh.a3.ddddddd'' 2000
     = Inl (HTTPException 401 ''Invalid token type'' [(''WWW-Authenticate'', ''Bearer'')])
   \<and> get_current_user sample_environment sample_settings sample_db ''access.a3.'' 2000
     = Inr sample_user"
  using access_guard_rejects_other_kinds
    [where env = sample_environment and cfg = sample_settings and now = 2000
       and token = "''refresh.a3.ddddddd''" and d = sample_db
       and data = "[(''sub'', PStr ''a3'')]" and expires_delta = None and ?t0.0 = 1000]
  by (simp add: decode_token_def sample_environment_def sample_jwt_decode_def
      refresh_token_claims_def sample_settings_def timedelta_days_def user_by_id_def
      sample_db_def sample_user_def get_current_user_def is_locked_def)

section \<open>Logout: which sessions are revoked\<close>









section \<open>Profile update: the frame\<close>

lemma fold_update_field_keeps:
  assumes "\<And>kv u. f (update_field kv u) = f u"
  shows "f (fold update_field upd u) = f u"
  using assms by (induction upd arbitrary: u) simp_all

lemma update_field_keeps_other:
  "uid (update_field kv u) = uid u"
  "email (update_field kv u) = email u"
  "username (update_field kv u) = username u"
  "password_hash (update_field kv u) = password_hash u"
  "role (update_field kv u) = role u"
  "is_active (update_field kv u) = is_active u"
  "mfa_enabled (update_field kv u) = mfa_enabled u"
  "failed_login_attempts (update_field kv u) = failed_login_attempts u"
  "locked_until (update_field kv u) = locked_until u"
  "last_login_at (update_field kv u) = last_login_at u"
  by (cases kv; simp add: update_field_def setattr_def allowed_fields_def)+

lemma fold_update_field_none:
  assumes "\<forall>v. (k, v) \<in> set upd \<longrightarrow> v = PNone"
  shows "(k = ''first_name'' \<longrightarrow> first_name (fold update_field upd u) = first_name u)
       \<and> (k = ''last_name'' \<longrightarrow> last_name (fold update_field upd u) = last_name u)
       \<and> (k = ''preferences'' \<longrightarrow> preferences (fold update_field upd u) = preferences u)"
  using assms
proof (induction upd arbitrary: u)
  case Nil
  then show ?case by simp
next
  case (Cons kv upd)
  obtain k' v' where kv: "kv = (k', v')" by (cases kv)
  have rest: "\<forall>v. (k, v) \<in> set upd \<longrightarrow> v = PNone" using Cons.prems by simp
  have hd: "k' = k \<longrightarrow> v' = PNone" using Cons.prems kv by simp
  have step:
    "(k = ''first_name'' \<longrightarrow> first_name (update_field kv u) = first_name u)
     \<and> (k = ''last_name'' \<longrightarrow> last_name (update_field kv u) = last_name u)
     \<and> (k = ''preferences'' \<longrightarrow> preferences (update_field kv u) = preferences u)"
    using hd by (auto simp add: kv update_field_def setattr_def allowed_fields_def)
  from Cons.IH[OF rest, of "update_field kv u"] step show ?case by simp
qed

text \<open>
  C10. Whatever keys and values \<open>update_data\<close> holds, the account \<open>usr'\<close> that
  \<open>update_user_profile\<close> stores (in the row of that \<open>id\<close>) and returns has the \<open>id\<close>,
  \<open>email\<close>, \<open>username\<close>, \<open>role\<close>, \<open>is_active\<close>, \<open>password_hash\<close>,
  \<open>failed_login_attempts\<close>, \<open>locked_until\<close>, \<open>mfa_enabled\<close> and \<open>last_login_at\<close> of the
  account passed in: only \<open>first_name\<close>, \<open>last_name\<close> and \<open>preferences\<close> may differ, and
  each of these is unchanged when every value supplied for it is \<open>None\<close>.
\<close>

theorem profile_update_frame:
  "\<exists>usr'. users (fst (update_user_profile env d usr update_data ip ua))
            = map (\<lambda>x. if uid x = uid usr then usr' else x) (users d)
     \<and> (audit_insert_ok env \<longrightarrow>
          snd (update_user_profile env d usr update_data ip ua) = Inr usr')
     \<and> uid usr' = uid usr \<and> email usr' = email usr \<and> username usr' = username usr
     \<and> role usr' = role usr \<and> is_active usr' = is_active usr
     \<and> password_hash usr' = password_hash usr
     \<and> failed_login_attempts usr' = failed_login_attempts usr
     \<and> locked_until usr' = locked_until usr
     \<and> mfa_enabled usr' = mfa_enabled usr \<and> last_login_at usr' = last_login_at usr
     \<and> ((\<forall>v. (''first_name'', v) \<in> set update_data \<longrightarrow> v = PNone) \<longrightarrow>
          first_name usr' = first_name usr)
     \<and> ((\<forall>v. (''last_name'', v) \<in> set update_data \<longrightarrow> v = PNone) \<longrightarrow>
          last_name usr' = last_name usr)
     \<and> ((\<forall>v. (''preferences'', v) \<in> set update_data \<longrightarrow> v = PNone) \<longrightarrow>
          preferences usr' = preferences usr)"
proof (intro exI[of _ "fold update_field update_data usr"] conjI impI)
  let ?u = "fold update_field update_data usr"
  show i: "uid ?u = uid usr"
    by (rule fold_update_field_keeps) (rule update_field_keeps_other)
  show "users (fst (update_user_profile env d usr update_data ip ua))
            = map (\<lambda>x. if uid x = uid usr then ?u else x) (users d)"
    by (simp add: update_user_profile_def Let_def audited_users save_user_def i)
  show "snd (update_user_profile env d usr update_data ip ua) = Inr ?u"
    if "audit_insert_ok env"
    using that by (simp add: update_user_profile_def Let_def audited_ok)
  show "email ?u = email usr"
    by (rule fold_update_field_keeps) (rule update_field_keeps_other)
  show "username ?u = username usr"
    by (rule fold_update_field_keeps) (rule update_field_keeps_other)
  show "role ?u = role usr"
    by (rule fold_update_field_keeps) (rule update_field_keeps_other)
  show "is_active ?u = is_active usr"
    by (rule fold_update_field_keeps) (rule update_field_keeps_other)
  show "password_hash ?u = password_hash usr"
    by (rule fold_update_field_keeps) (rule update_field_keeps_other)
  show "failed_login_attempts ?u = failed_login_attempts usr"
    by (rule fold_update_field_keeps) (rule update_field_keeps_other)
  show "locked_until ?u = locked_until usr"
    by (rule fold_update_field_keeps) (rule update_field_keeps_other)
  show "mfa_enabled ?u = mfa_enabled usr"
    by (rule fold_update_field_keeps) (rule update_field_keeps_other)
  show "last_login_at ?u = last_login_at usr"
    by (rule fold_update_field_keeps) (rule update_field_keeps_other)
  show "first_name ?u = first_name usr"
    if "\<forall>v. (''first_name'', v) \<in> set update_data \<longrightarrow> v = PNone"
    using fold_update_field_none[OF that, of usr] by simp
  show "last_name ?u = last_name usr"
    if "\<forall>v. (''last_name'', v) \<in> set update_data \<longrightarrow> v = PNone"
    using fold_update_field_none[OF that, of usr] by simp
  show "preferences ?u = preferences usr"
    if "\<forall>v. (''preferences'', v) \<in> set update_data \<longrightarrow> v = PNone"
    using fold_update_field_none[OF that, of usr] by simp
qed

text \<open>
  An instance: an update that also names \<open>role\<close>, \<open>is_active\<close>, \<open>password_hash\<close>,
  \<open>failed_login_attempts\<close> and \<open>email\<close>, and gives \<open>None\<close> for \<open>last_name\<close>.
\<close>

theorem profile_update_frame_witness:
  "snd (update_user_profile sample_environment sample_db sample_user
      [(''first_name'', PStr ''Christopher''), (''last_name'', PNone),
       (''role'', PStr ''admin''), (''is_active'', PBool False),
       (''password_hash'', PStr ''bcrypt:mine''), (''failed_login_attempts'', PInt 0),
       (''email'', PStr ''eve@portal.dev''),
       (''preferences'', PDict [(''theme'', PStr ''dark'')])] None None)
     = Inr (sample_user\<lparr>first_name := PStr ''Christopher'',
              preferences := PDict [(''theme'', PStr ''dark'')]\<rparr>)
   \<and> users (fst (update_user_profile sample_environment sample_db sample_user
      [(''first_name'', PStr ''Christopher''), (''last_name'', PNone),
       (''role'', PStr ''admin''), (''is_active'', PBool False),
       (''password_hash'', PStr ''bcrypt:mine''), (''failed_login_attempts'', PInt 0),
       (''email'', PStr ''eve@portal.dev''),
       (''preferences'', PDict [(''theme'', PStr ''dark'')])] None None))
     = [sample_user\<lparr>first_name := PStr ''Christopher'',
              preferences := PDict [(''theme'', PStr ''dark'')]\<rparr>]"
  using profile_update_frame
    [where env = sample_environment and d = sample_db and usr = sample_user
       and ip = None and ua = None and update_data =
      "[(''first_name'', PStr ''Christopher''), (''last_name'', PNone),
       (''role'', PStr ''admin''), (''is_active'', PBool False),
       (''password_hash'', PStr ''bcrypt:mine''), (''failed_login_attempts'', PInt 0),
       (''email'', PStr ''eve@portal.dev''),
       (''preferences'', PDict [(''theme'', PStr ''dark'')])]"]
  by (simp add: update_user_profile_def Let_def audited_ok save_user_def update_field_def
      setattr_def allowed_fields_def sample_db_def sample_user_def sample_environment_def)

section \<open>The audit record and the state change it describes\<close>

lemma audited_refused_fst:
  "fst (audited (env\<lparr>audit_insert_ok := False\<rparr>) d act outc i ip ua r) = d"
  by (simp add: audited_def log_audit_event_def Let_def)

lemma audited_refused_snd:
  "snd (audited (env\<lparr>audit_insert_ok := False\<rparr>) d act outc i ip ua r)
     = Inl (Uncaught ''SQLAlchemyError'')"
  by (simp add: audited_def log_audit_event_def Let_def)

lemma audit_log_save_user: "audit_log (save_user d u) = audit_log d"
  by (simp add: save_user_def)

lemmas codec_defs = verify_password_def hash_password_def create_access_token_def
  create_refresh_token_def

lemma authenticate_user_commits_before_audit:
  "users (fst (authenticate_user (env\<lparr>audit_insert_ok := b\<rparr>) cfg d x pw ip ua now))
     = users (fst (authenticate_user env cfg d x pw ip ua now))"
  "sessions (fst (authenticate_user (env\<lparr>audit_insert_ok := b\<rparr>) cfg d x pw ip ua now))
     = sessions (fst (authenticate_user env cfg d x pw ip ua now))"
  "audit_log (fst (authenticate_user (env\<lparr>audit_insert_ok := False\<rparr>) cfg d x pw ip ua now))
     = audit_log d"
  "isl (snd (authenticate_user (env\<lparr>audit_insert_ok := False\<rparr>) cfg d x pw ip ua now))"
  by (simp_all add: authenticate_user_def Let_def audited_users audited_sessions
      audited_refused_fst audited_refused_snd audit_log_save_user codec_defs
      split: option.splits)

lemma refresh_access_token_commits_before_audit:
  "users (fst (refresh_access_token (env\<lparr>audit_insert_ok := b\<rparr>) cfg d tok ip ua now))
     = users (fst (refresh_access_token env cfg d tok ip ua now))"
  "sessions (fst (refresh_access_token (env\<lparr>audit_insert_ok := b\<rparr>) cfg d tok ip ua now))
     = sessions (fst (refresh_access_token env cfg d tok ip ua now))"
  "audit_log (fst (refresh_access_token (env\<lparr>audit_insert_ok := False\<rparr>) cfg d tok ip ua now))
     = audit_log d"
  "isl (snd (refresh_access_token (env\<lparr>audit_insert_ok := False\<rparr>) cfg d tok ip ua now))"
  by (simp_all add: refresh_access_token_def Let_def audited_users audited_sessions
      audited_refused_fst audited_refused_snd codec_defs
      split: option.splits)

lemma logout_user_commits_before_audit:
  "users (fst (logout_user (env\<lparr>audit_insert_ok := b\<rparr>) d u tok ip ua))
     = users (fst (logout_user env d u tok ip ua))"
  "sessions (fst (logout_user (env\<lparr>audit_insert_ok := b\<rparr>) d u tok ip ua))
     = sessions (fst (logout_user env d u tok ip ua))"
  "audit_log (fst (logout_user (env\<lparr>audit_insert_ok := False\<rparr>) d u tok ip ua))
     = audit_log d"
  "isl (snd (logout_user (env\<lparr>audit_insert_ok := False\<rparr>) d u tok ip ua))"
  by (simp_all add: logout_user_def Let_def audited_users audited_sessions
      audited_refused_fst audited_refused_snd)

lemma update_user_profile_commits_before_audit:
  "users (fst (update_user_profile (env\<lparr>audit_insert_ok := b\<rparr>) d u upd ip ua))
     = users (fst (update_user_profile env d u upd ip ua))"
  "sessions (fst (update_user_profile (env\<lparr>audit_insert_ok := b\<rparr>) d u upd ip ua))
     = sessions (fst (update_user_profile env d u upd ip ua))"
  "audit_log (fst (update_user_profile (env\<lparr>audit_insert_ok := False\<rparr>) d u upd ip ua))
     = audit_log d"
  "isl (snd (update_user_profile (env\<lparr>audit_insert_ok := False\<rparr>) d u upd ip ua))"
  by (simp_all add: update_user_profile_def Let_def audited_users audited_sessions
      audited_refused_fst audited_refused_snd audit_log_save_user)

lemma change_password_commits_before_audit:
  "users (fst (change_password (env\<lparr>audit_insert_ok := b\<rparr>) d u cur new ip ua))
     = users (fst (change_password env d u cur new ip ua))"
  "sessions (fst (change_password (env\<lparr>audit_insert_ok := b\<rparr>) d u cur new ip ua))
     = sessions (fst (change_password env d u cur new ip ua))"
  "audit_log (fst (change_password (env\<lparr>audit_insert_ok := False\<rparr>) d u cur new ip ua))
     = audit_log d"
  "isl (snd (change_password (env\<lparr>audit_insert_ok := False\<rparr>) d u cur new ip ua))"
  by (simp_all add: change_password_def Let_def audited_users audited_sessions
      audited_refused_fst audited_refused_snd audit_log_save_user codec_defs)

text \<open>
  C3 (as amended). In login, refresh, logout, profile update and password change the
  state change is committed first and the audit record is written afterwards, by
  \<open>log_audit_event\<close>, in a commit of its own. So the \<open>users\<close> and \<open>sessions\<close> tables an
  operation leaves committed do not depend on whether the audit row can be written;
  and when it cannot, no audit entry is added and the operation raises (\<open>isl\<close>: its
  result is a failure), while the state change stays persisted.
\<close>

theorem state_change_committed_before_audit:
  "users (fst (authenticate_user (env\<lparr>audit_insert_ok := b\<rparr>) cfg d x pw ip ua now))
     = users (fst (authenticate_user env cfg d x pw ip ua now))
   \<and> sessions (fst (authenticate_user (env\<lparr>audit_insert_ok := b\<rparr>) cfg d x pw ip ua now))
     = sessions (fst (authenticate_user env cfg d x pw ip ua now))
   \<and> audit_log (fst (authenticate_user (env\<lparr>audit_insert_ok := False\<rparr>) cfg d x pw ip ua now))
     = audit_log d
   \<and> isl (snd (authenticate_user (env\<lparr>audit_insert_ok := False\<rparr>) cfg d x pw ip ua now))
   \<and> users (fst (refresh_access_token (env\<lparr>audit_insert_ok := b\<rparr>) cfg d tok ip ua now))
     = users (fst (refresh_access_token env cfg d tok ip ua now))
   \<and> sessions (fst (refresh_access_token (env\<lparr>audit_insert_ok := b\<rparr>) cfg d tok ip ua now))
     = sessions (fst (refresh_access_token env cfg d tok ip ua now))
   \<and> audit_log (fst (refresh_access_token (env\<lparr>audit_insert_ok := False\<rparr>) cfg d tok ip ua now))
     = audit_log d
   \<and> isl (snd (refresh_access_token (env\<lparr>audit_insert_ok := False\<rparr>) cfg d tok ip ua now))
   \<and> users (fst (logout_user (env\<lparr>audit_insert_ok := b\<rparr>) d u otok ip ua))
     = users (fst (logout_user env d u otok ip ua))
   \<and> sessions (fst (logout_user (env\<lparr>audit_insert_ok := b\<rparr>) d u otok ip ua))
     = sessions (fst (logout_user env d u otok ip ua))
   \<and> audit_log (fst (logout_user (env\<lparr>audit_insert_ok := False\<rparr>) d u otok ip ua))
     = audit_log d
   \<and> isl (snd (logout_user (env\<lparr>audit_insert_ok := False\<rparr>) d u otok ip ua))
   \<and> users (fst (update_user_profile (env\<lparr>audit_insert_ok := b\<rparr>) d u upd ip ua))
     = users (fst (update_user_profile env d u upd ip ua))
   \<and> sessions (fst (update_user_profile (env\<lparr>audit_insert_ok := b\<rparr>) d u upd ip ua))
     = sessions (fst (update_user_profile env d u upd ip ua))
   \<and> audit_log (fst (update_user_profile (env\<lparr>audit_insert_ok := False\<rparr>) d u upd ip ua))
     = audit_log d
   \<and> isl (snd (update_user_profile (env\<lparr>audit_insert_ok := False\<rparr>) d u upd ip ua))
   \<and> users (fst (change_password (env\<lparr>audit_insert_ok := b\<rparr>) d u cur new ip ua))
     = users (fst (change_password env d u cur new ip ua))
   \<and> sessions (fst (change_password (env\<lparr>audit_insert_ok := b\<rparr>) d u cur new ip ua))
     = sessions (fst (change_password env d u cur new ip ua))
   \<and> audit_log (fst (change_password (env\<lparr>audit_insert_ok := False\<rparr>) d u cur new ip ua))
     = audit_log d
   \<and> isl (snd (change_password (env\<lparr>audit_insert_ok := False\<rparr>) d u cur new ip ua))"
  by (intro conjI)
    (rule authenticate_user_commits_before_audit refresh_access_token_commits_before_audit
       logout_user_commits_before_audit update_user_profile_commits_before_audit
       change_password_commits_before_audit)+

text \<open>
  C3 as stated fails: a login with the correct password whose audit row the store
  refuses raises, leaves the audit log empty, and has none the less persisted the new
  session and the stamped last login.
\<close>

theorem login_persists_without_audit_counterexample:
  "snd (authenticate_user (sample_environment\<lparr>audit_insert_ok := False\<rparr>) sample_settings
      sample_db ''chris_p'' ''Chris@123!'' None None 1000)
     = Inl (Uncaught ''SQLAlchemyError'')
   \<and> audit_log (fst (authenticate_user (sample_environment\<lparr>audit_insert_ok := False\<rparr>)
      sample_settings sample_db ''chris_p'' ''Chris@123!'' None None 1000)) = []
   \<and> users (fst (authenticate_user (sample_environment\<lparr>audit_insert_ok := False\<rparr>)
      sample_settings sample_db ''chris_p'' ''Chris@123!'' None None 1000))
     = [sample_user\<lparr>last_login_at := Some 1000\<rparr>]
   \<and> map user_id (sessions (fst (authenticate_user
      (sample_environment\<lparr>audit_insert_ok := False\<rparr>)
      sample_settings sample_db ''chris_p'' ''Chris@123!'' None None 1000))) = [3]
   \<and> users sample_db = [sample_user] \<and> sessions sample_db = []"
  by (simp add: authenticate_user_def Let_def audited_def log_audit_event_def
      save_user_def token_stored_def sample_defs)

section \<open>Refresh rotation\<close>





lemma find_revoke_first:
  "find (\<lambda>s. refresh_token s = t) ss = Some s \<Longrightarrow>
   find (\<lambda>s. refresh_token s = t) (revoke_first (\<lambda>s. refresh_token s = t) ss @ rest)
     = Some (s\<lparr>is_revoked := True\<rparr>)"
  by (induction ss) (auto split: if_splits)



text \<open>
  What holds of the rotation: when the newly signed refresh token is not yet stored, a
  refresh with a valid session of an active account succeeds, the session of the
  presented token is revoked, a session with the new token is stored, and every later
  refresh with the presented token fails with 401.
\<close>

lemma refresh_rotation_single_use:
  assumes "session_by_token d T = Some s" "is_valid s now"
    "user_by_id d (user_id s) = Some u" "is_active u" "audit_insert_ok env"
    "\<not> token_stored d
        (create_refresh_token env cfg [(''sub'', PStr (uuid_str env (uid u)))] None now)"
  shows "\<exists>d' A T'. refresh_access_token env cfg d T ip ua now = (d', Inr (A, T'))
       \<and> session_by_token d' T = Some (s\<lparr>is_revoked := True\<rparr>)
       \<and> \<not> token_stored d T' \<and> token_stored d' T'
       \<and> (\<forall>ip' ua' now'. refresh_access_token env cfg d' T ip' ua' now'
            = (d', Inl (HTTPException 401 ''Refresh token has expired or been revoked'' [])))"
proof -
  let ?T' = "create_refresh_token env cfg [(''sub'', PStr (uuid_str env (uid u)))] None now"
  let ?A = "create_access_token env cfg
      [(''sub'', PStr (uuid_str env (uid u))), (''role'', PStr (role u))] None now"
  let ?n = "\<lparr>user_id = uid u, refresh_token = ?T', ip_address = py_or ip (ip_address s),
      user_agent = py_or ua (user_agent s), device_type = device_type s,
      expires_at = now + timedelta_days (REFRESH_TOKEN_EXPIRE_DAYS cfg),
      is_revoked = False, created_at = now, last_used_at = now\<rparr>"
  let ?d' = "d\<lparr>sessions := revoke_first (\<lambda>s. refresh_token s = T) (sessions d) @ [?n],
      audit_log := audit_log d @ [\<lparr>audit_user_id = Some (uid u), action = ''token_refresh'',
        outcome = ''success'', audit_ip_address = ip, audit_user_agent = ua\<rparr>]\<rparr>"
  have r: "refresh_access_token env cfg d T ip ua now = (?d', Inr (?A, ?T'))"
    using assms by (simp add: refresh_access_token_def Let_def audited_ok)
  have f: "session_by_token ?d' T = Some (s\<lparr>is_revoked := True\<rparr>)"
    using assms(1) by (simp add: session_by_token_def find_revoke_first)
  have st: "token_stored ?d' ?T'"
    by (simp add: token_stored_def)
  have again: "refresh_access_token env cfg ?d' T ip' ua' now'
      = (?d', Inl (HTTPException 401 ''Refresh token has expired or been revoked'' []))"
    for ip' ua' now'
    unfolding refresh_access_token_def f by (simp add: is_valid_def)
  show ?thesis
    using r f st again assms(6) by blast
qed




end
